theory Spec2Isabelle
  imports Complex_Main
begin

section \<open>Strings and big integers of the host language\<close>

text \<open>
  The decimal helpers of anchor-kit work on JavaScript strings and \<open>bigint\<close> values.
  A string is modelled as a \<open>char list\<close> (code units below 256), a \<open>bigint\<close> as an
  unbounded \<open>int\<close>.  Every exception of the source is a value \<open>Inl e\<close> of a result
  type \<open>error + 'a\<close>.
\<close>

datatype error =
    InvalidDecimalFormat string
  | DivisionByZero
  | SyntaxError string
  | BigInvalidNumber string
  | BigDivisionByZero

text \<open>\<open>\d\<close> of a regular expression without the unicode flag: the ten ASCII digits.\<close>

definition isDigit :: "char \<Rightarrow> bool" where
  "isDigit c = (48 \<le> (of_char c :: int) \<and> (of_char c :: int) \<le> 57)"

definition digitChar :: "int \<Rightarrow> char" where
  "digitChar d = char_of (48 + d)"

text \<open>
  White space and line terminators removed by \<open>String.prototype.trim\<close> (and by the
  string-to-bigint conversion), as far as they are code units below 256:
  TAB, LF, VT, FF, CR, SPACE and NBSP.
\<close>

definition isSpace :: "char \<Rightarrow> bool" where
  "isSpace c = ((of_char c :: int) \<in> {9, 10, 11, 12, 13, 32, 160})"

definition trim :: "string \<Rightarrow> string" where
  "trim s = rev (dropWhile isSpace (rev (dropWhile isSpace s)))"

text \<open>
  \<open>s.indexOf(c)\<close> and \<open>s.search(re)\<close> for a one-character pattern: the index of the
  first character found, \<open>-1\<close> when there is none.
\<close>

fun searchFrom :: "(char \<Rightarrow> bool) \<Rightarrow> string \<Rightarrow> int \<Rightarrow> int" where
  "searchFrom p [] i = - 1"
| "searchFrom p (x # xs) i = (if p x then i else searchFrom p xs (i + 1))"

definition indexOf :: "string \<Rightarrow> char \<Rightarrow> int" where
  "indexOf s c = searchFrom (\<lambda>x. x = c) s 0"

text \<open>\<open>s.replace(c, '')\<close> with a string pattern: only the first occurrence is removed.\<close>

fun removeFirst :: "char \<Rightarrow> string \<Rightarrow> string" where
  "removeFirst c [] = []"
| "removeFirst c (x # xs) = (if x = c then xs else x # removeFirst c xs)"

text \<open>
  \<open>s.slice(start, end)\<close>: a negative index counts from the end, both indices are
  clamped to the string, and the result is empty when they cross.
\<close>

definition sliceIndex :: "string \<Rightarrow> int \<Rightarrow> nat" where
  "sliceIndex s i =
     (if i < 0 then nat (max (int (length s) + i) 0) else nat (min i (int (length s))))"

definition slice :: "string \<Rightarrow> int \<Rightarrow> int \<Rightarrow> string" where
  "slice s start end = take (sliceIndex s end - sliceIndex s start) (drop (sliceIndex s start) s)"

text \<open>\<open>s.padStart(n, c)\<close> and \<open>s.replace(/0+$/, '')\<close>.\<close>

definition padStart :: "string \<Rightarrow> nat \<Rightarrow> char \<Rightarrow> string" where
  "padStart s n c = replicate (n - length s) c @ s"

definition stripTrailingZeros :: "string \<Rightarrow> string" where
  "stripTrailingZeros s = rev (dropWhile (\<lambda>c. c = CHR ''0'') (rev s))"

subsection \<open>Conversions between strings and big integers\<close>

text \<open>The value of a digit string in base \<open>b\<close>, most significant digit first.\<close>

definition hexVal :: "char \<Rightarrow> int option" where
  "hexVal c =
     (let n = (of_char c :: int) in
      if 48 \<le> n \<and> n \<le> 57 then Some (n - 48)
      else if 97 \<le> n \<and> n \<le> 102 then Some (n - 87)
      else if 65 \<le> n \<and> n \<le> 70 then Some (n - 55)
      else None)"

fun baseDigits :: "int \<Rightarrow> string \<Rightarrow> int \<Rightarrow> int option" where
  "baseDigits b [] acc = Some acc"
| "baseDigits b (c # cs) acc =
     (case hexVal c of
        None \<Rightarrow> None
      | Some d \<Rightarrow> if d < b then baseDigits b cs (acc * b + d) else None)"

definition parseDigits :: "int \<Rightarrow> string \<Rightarrow> int option" where
  "parseDigits b s = (if s = [] then None else baseDigits b s 0)"

text \<open>
  \<open>BigInt(s)\<close> for a string argument: the string is trimmed; the empty string is
  \<open>0n\<close>; a decimal literal may carry one sign and leading zeros; a literal with the
  prefix \<open>0x\<close>, \<open>0o\<close> or \<open>0b\<close> carries no sign; anything else raises a
  \<open>SyntaxError\<close>.
\<close>

definition nonDecimalBase :: "char \<Rightarrow> int option" where
  "nonDecimalBase c =
     (if c = CHR ''x'' \<or> c = CHR ''X'' then Some 16
      else if c = CHR ''o'' \<or> c = CHR ''O'' then Some 8
      else if c = CHR ''b'' \<or> c = CHR ''B'' then Some 2
      else None)"

fun stringToBigInt :: "string \<Rightarrow> int option" where
  "stringToBigInt [] = Some 0"
| "stringToBigInt (c # cs) =
     (if c = CHR ''-'' then map_option uminus (parseDigits 10 cs)
      else if c = CHR ''+'' then parseDigits 10 cs
      else (case parseDigits 10 (c # cs) of
              Some n \<Rightarrow> Some n
            | None \<Rightarrow>
               (case cs of
                  [] \<Rightarrow> None
                | p # ds \<Rightarrow>
                   (if c = CHR ''0'' then
                      (case nonDecimalBase p of
                         None \<Rightarrow> None
                       | Some b \<Rightarrow> parseDigits b ds)
                    else None))))"

definition BigInt :: "string \<Rightarrow> error + int" where
  "BigInt s = (case stringToBigInt (trim s) of None \<Rightarrow> Inl (SyntaxError s) | Some v \<Rightarrow> Inr v)"

text \<open>\<open>v.toString()\<close> of a big integer: decimal digits, a minus sign for a negative value.\<close>

function decimalDigits :: "int \<Rightarrow> string" where
  "decimalDigits n =
     (if n < 10 then [digitChar n] else decimalDigits (n div 10) @ [digitChar (n mod 10)])"
  by pat_completeness auto
termination
  by (relation "measure nat") auto

declare decimalDigits.simps [simp del]

definition toString :: "int \<Rightarrow> string" where
  "toString v = (if v < 0 then CHR ''-'' # decimalDigits (- v) else decimalDigits v)"

text \<open>
  Division and remainder of big integers: the quotient is truncated toward zero and
  the remainder takes the sign of the dividend.  Both are only used with a divisor
  that is not zero.
\<close>

definition bigDiv :: "int \<Rightarrow> int \<Rightarrow> int" where
  "bigDiv a b = sgn a * sgn b * (\<bar>a\<bar> div \<bar>b\<bar>)"

definition bigRem :: "int \<Rightarrow> int \<Rightarrow> int" where
  "bigRem a b = sgn a * (\<bar>a\<bar> mod \<bar>b\<bar>)"

text \<open>
  \<open>BigInt(10 ** n)\<close>: the power is computed in double precision, where it is the exact
  power of ten for \<open>n \<le> 22\<close>.  The helpers below only use exponents up to 14 (a scale
  is at most 7, and only \<open>multiply\<close> adds two of them).
\<close>

definition pow10 :: "nat \<Rightarrow> int" where
  "pow10 n = 10 ^ n"

section \<open>The scaled-integer decimal helpers\<close>

record DecimalValue =
  val :: int
  scale :: nat

text \<open>
  \<open>toDecimalValue\<close>.  A numeric argument is first turned into its string, so the model
  starts from the string.  The scale is the number of characters after the first
  dot, at most 7; the digits are the string without that dot, cut by \<open>slice\<close> at
  \<open>str.length - dotIndex - 1 + scale\<close>; the loop pads with zeros on the left to at
  least \<open>scale\<close> characters.
\<close>

function padLoop :: "string \<Rightarrow> nat \<Rightarrow> string" where
  "padLoop valueStr sc = (if length valueStr < sc then padLoop (CHR ''0'' # valueStr) sc else valueStr)"
  by pat_completeness auto
termination
  by (relation "measure (\<lambda>(valueStr, sc). sc - length valueStr)") auto

declare padLoop.simps [simp del]

definition toDecimalValue :: "string \<Rightarrow> error + DecimalValue" where
  "toDecimalValue str =
     (let dotIndex = indexOf str (CHR ''.'');
          sc = (if dotIndex \<noteq> - 1 then min (nat (int (length str) - dotIndex - 1)) 7 else 0);
          valueStr = (if dotIndex \<noteq> - 1
                      then slice (removeFirst (CHR ''.'') str) 0
                             (int (length str) - dotIndex - 1 + int sc)
                      else str);
          padded = padLoop valueStr sc
      in case BigInt (if padded = [] then ''0'' else padded) of
           Inl e \<Rightarrow> Inl e
         | Inr v \<Rightarrow> Inr \<lparr>val = v, scale = sc\<rparr>)"

text \<open>\<open>fromBigInt\<close>: a big integer and a scale back to a decimal string.\<close>

definition fromBigInt :: "int \<Rightarrow> nat \<Rightarrow> string" where
  "fromBigInt v sc =
     (if sc = 0 then toString v
      else
        let divisor = pow10 sc;
            whole = bigDiv v divisor;
            fraction = bigRem v divisor;
            fractionStr = stripTrailingZeros (padStart (toString fraction) sc (CHR ''0''))
        in if fractionStr = [] then toString whole
           else toString whole @ ''.'' @ fractionStr)"

text \<open>
  The operations parse both operands with \<open>toDecimalValue\<close>; an exception of the
  first operand comes before one of the second.
\<close>

definition add :: "string \<Rightarrow> string \<Rightarrow> error + string" where
  "add a b =
     (case toDecimalValue a of
        Inl e \<Rightarrow> Inl e
      | Inr decA \<Rightarrow>
         (case toDecimalValue b of
            Inl e \<Rightarrow> Inl e
          | Inr decB \<Rightarrow>
             (let maxScale = max (scale decA) (scale decB);
                  scaleDiff = maxScale - scale decA;
                  scaleDiffB = maxScale - scale decB;
                  valueA = val decA * pow10 scaleDiff;
                  valueB = val decB * pow10 scaleDiffB;
                  result = valueA + valueB
              in Inr (fromBigInt result maxScale))))"

definition subtract :: "string \<Rightarrow> string \<Rightarrow> error + string" where
  "subtract a b =
     (case toDecimalValue a of
        Inl e \<Rightarrow> Inl e
      | Inr decA \<Rightarrow>
         (case toDecimalValue b of
            Inl e \<Rightarrow> Inl e
          | Inr decB \<Rightarrow>
             (let maxScale = max (scale decA) (scale decB);
                  scaleDiff = maxScale - scale decA;
                  scaleDiffB = maxScale - scale decB;
                  valueA = val decA * pow10 scaleDiff;
                  valueB = val decB * pow10 scaleDiffB;
                  result = valueA - valueB
              in Inr (fromBigInt result maxScale))))"

definition multiply :: "string \<Rightarrow> string \<Rightarrow> error + string" where
  "multiply a b =
     (case toDecimalValue a of
        Inl e \<Rightarrow> Inl e
      | Inr decA \<Rightarrow>
         (case toDecimalValue b of
            Inl e \<Rightarrow> Inl e
          | Inr decB \<Rightarrow>
             (let result = val decA * val decB;
                  sc = scale decA + scale decB
              in Inr (fromBigInt result sc))))"

text \<open>
  \<open>divide\<close> (named \<open>divide_dec\<close> here): the check for a zero divisor comes before
  the division; the scale of the result is the constant 7.
\<close>

definition divide_dec :: "string \<Rightarrow> string \<Rightarrow> error + string" where
  "divide_dec a b =
     (case toDecimalValue a of
        Inl e \<Rightarrow> Inl e
      | Inr decA \<Rightarrow>
         (case toDecimalValue b of
            Inl e \<Rightarrow> Inl e
          | Inr decB \<Rightarrow>
             (if val decB = 0 then Inl DivisionByZero
              else
                (let sc = 7;
                     scaledA = val decA * pow10 sc;
                     result = bigDiv scaledA (val decB)
                 in Inr (fromBigInt result sc)))))"

definition applyFee :: "string \<Rightarrow> string \<Rightarrow> error + string" where
  "applyFee amount feePercent =
     (case multiply amount feePercent of
        Inl e \<Rightarrow> Inl e
      | Inr product \<Rightarrow> divide_dec product ''100'')"

definition compare :: "string \<Rightarrow> string \<Rightarrow> error + int" where
  "compare a b =
     (case toDecimalValue a of
        Inl e \<Rightarrow> Inl e
      | Inr decA \<Rightarrow>
         (case toDecimalValue b of
            Inl e \<Rightarrow> Inl e
          | Inr decB \<Rightarrow>
             (let maxScale = max (scale decA) (scale decB);
                  scaleDiff = maxScale - scale decA;
                  scaleDiffB = maxScale - scale decB;
                  valueA = val decA * pow10 scaleDiff;
                  valueB = val decB * pow10 scaleDiffB
              in if valueA < valueB then Inr (- 1)
                 else if valueA > valueB then Inr 1
                 else Inr 0)))"

section \<open>Validation of decimal strings\<close>

text \<open>
  \<open>fromString\<close> tests the trimmed string against the regular expression
  \<open>/^-?\d*\.?\d+$/\<close>.  Regular expressions are a datatype; \<open>matches\<close> decides whether
  the whole string matches (the pattern is anchored at both ends), by taking the
  derivative of the expression for each character in turn.
\<close>

datatype regex =
    Never
  | Empty
  | Lit char
  | DigitClass
  | Choice regex regex
  | Then regex regex
  | Many regex

definition Opt :: "regex \<Rightarrow> regex" where
  "Opt r = Choice r Empty"

definition Several :: "regex \<Rightarrow> regex" where
  "Several r = Then r (Many r)"

fun nullable :: "regex \<Rightarrow> bool" where
  "nullable Never = False"
| "nullable Empty = True"
| "nullable (Lit c) = False"
| "nullable DigitClass = False"
| "nullable (Choice r s) = (nullable r \<or> nullable s)"
| "nullable (Then r s) = (nullable r \<and> nullable s)"
| "nullable (Many r) = True"

fun derive :: "char \<Rightarrow> regex \<Rightarrow> regex" where
  "derive x Never = Never"
| "derive x Empty = Never"
| "derive x (Lit c) = (if x = c then Empty else Never)"
| "derive x DigitClass = (if isDigit x then Empty else Never)"
| "derive x (Choice r s) = Choice (derive x r) (derive x s)"
| "derive x (Then r s) =
     (if nullable r then Choice (Then (derive x r) s) (derive x s) else Then (derive x r) s)"
| "derive x (Many r) = Then (derive x r) (Many r)"

fun matches :: "regex \<Rightarrow> string \<Rightarrow> bool" where
  "matches r [] = nullable r"
| "matches r (x # xs) = matches (derive x r) xs"

definition decimalPattern :: regex where
  "decimalPattern =
     Then (Opt (Lit (CHR ''-'')))
       (Then (Many DigitClass) (Then (Opt (Lit (CHR ''.''))) (Several DigitClass)))"

definition fromString :: "string \<Rightarrow> error + string" where
  "fromString str =
     (let trimmed = trim str
      in if \<not> matches decimalPattern trimmed then Inl (InvalidDecimalFormat str)
         else Inr trimmed)"

section \<open>The fee-inclusive total of the \<open>big.js\<close> variant\<close>

text \<open>
  Modelled from the spec: the external arbitrary-precision decimal type.
  \<open>DecimalUtils.applyFee\<close> of \<open>src/utils/decimal.ts\<close> computes with the type \<open>Big\<close> of
  the package \<open>big.js\<close>, which the repository imports and does not contain.  The
  model follows the package with its default settings.  A \<open>Big\<close> is an exact decimal
  number, kept here as a signed coefficient and a number of decimal places (the
  value is \<open>coeff / 10 ^ places\<close>).
\<close>

record Big =
  coeff :: int
  places :: nat

text \<open>
  The constructor \<open>new Big(n)\<close> for a string: the numerals of
  \<open>/^-?(\d+(\.\d*)?|\.\d+)(e[+-]?\d+)?$/i\<close> are accepted, anything else raises
  \<open>Invalid number\<close>.  The sign is taken off, the dot removed and its position kept,
  an exponent added to that position; the digits with the position give the value.
  A number is passed as its string, \<open>String(n)\<close>.
\<close>

definition numericPattern :: regex where
  "numericPattern =
     Then (Opt (Lit (CHR ''-'')))
       (Then (Choice (Then (Several DigitClass) (Opt (Then (Lit (CHR ''.'')) (Many DigitClass))))
                     (Then (Lit (CHR ''.'')) (Several DigitClass)))
             (Opt (Then (Choice (Lit (CHR ''e'')) (Lit (CHR ''E'')))
                        (Then (Opt (Choice (Lit (CHR ''+'')) (Lit (CHR ''-'')))) (Several DigitClass)))))"

definition digitsValue :: "string \<Rightarrow> int" where
  "digitsValue s = foldl (\<lambda>acc c. acc * 10 + (of_char c - 48)) 0 s"

definition toNumber :: "string \<Rightarrow> int" where
  "toNumber s =
     (case s of
        [] \<Rightarrow> 0
      | c # cs \<Rightarrow>
          if c = CHR ''-'' then - digitsValue cs
          else if c = CHR ''+'' then digitsValue cs
          else digitsValue s)"

definition bigParse :: "string \<Rightarrow> error + Big" where
  "bigParse n =
     (if \<not> matches numericPattern n then Inl (BigInvalidNumber n)
      else
        let negative = (n \<noteq> [] \<and> hd n = CHR ''-'');
            n1 = (if negative then tl n else n);
            e0 = indexOf n1 (CHR ''.'');
            n2 = (if e0 > - 1 then removeFirst (CHR ''.'') n1 else n1);
            i = searchFrom (\<lambda>c. c = CHR ''e'' \<or> c = CHR ''E'') n2 0;
            e = (if i > 0 then (if e0 < 0 then i else e0) + toNumber (drop (nat i + 1) n2)
                 else if e0 < 0 then int (length n2) else e0);
            digits = (if i > 0 then take (nat i) n2 else n2);
            c = (if negative then - digitsValue digits else digitsValue digits);
            k = e - int (length digits)
        in if k \<ge> 0 then Inr \<lparr>coeff = c * 10 ^ nat k, places = 0\<rparr>
           else Inr \<lparr>coeff = c, places = nat (- k)\<rparr>)"

text \<open>
  \<open>x.div(y)\<close> raises \<open>Division by zero\<close> for a zero divisor and otherwise rounds the
  quotient to \<open>Big.DP\<close> decimal places (20 by default), up in magnitude when the
  next digit is 5 or more (\<open>Big.RM = 1\<close>, the default).  \<open>x.times(y)\<close> and \<open>x.plus(y)\<close>
  are exact.
\<close>

definition Big_DP :: nat where
  "Big_DP = 20"

definition big_div :: "Big \<Rightarrow> Big \<Rightarrow> error + Big" where
  "big_div x y =
     (if coeff y = 0 then Inl BigDivisionByZero
      else
        let n = \<bar>coeff x\<bar> * 10 ^ places y * 10 ^ Big_DP;
            d = \<bar>coeff y\<bar> * 10 ^ places x;
            q = n div d;
            nextDigit = (n * 10 div d) mod 10;
            r = (if nextDigit \<ge> 5 then q + 1 else q)
        in Inr \<lparr>coeff = sgn (coeff x) * sgn (coeff y) * r, places = Big_DP\<rparr>)"

definition big_times :: "Big \<Rightarrow> Big \<Rightarrow> Big" where
  "big_times x y = \<lparr>coeff = coeff x * coeff y, places = places x + places y\<rparr>"

definition big_plus :: "Big \<Rightarrow> Big \<Rightarrow> Big" where
  "big_plus x y =
     (let m = max (places x) (places y)
      in \<lparr>coeff = coeff x * 10 ^ (m - places x) + coeff y * 10 ^ (m - places y), places = m\<rparr>)"

text \<open>
  \<open>x.toFixed()\<close> without an argument: plain notation, at least one digit before the
  dot, no trailing zeros after it and no dot without a fraction; a minus sign for a
  negative value other than zero.
\<close>

definition big_toFixed :: "Big \<Rightarrow> string" where
  "big_toFixed x =
     (let padded = padStart (decimalDigits \<bar>coeff x\<bar>) (places x + 1) (CHR ''0'');
          whole = take (length padded - places x) padded;
          fraction = stripTrailingZeros (drop (length padded - places x) padded);
          body = (if fraction = [] then whole else whole @ ''.'' @ fraction)
      in if coeff x < 0 then CHR ''-'' # body else body)"

text \<open>
  \<open>DecimalUtils.applyFee(amount, feePercentage)\<close>: the second argument is the string
  of the number passed.
\<close>

definition DecimalUtils_applyFee :: "string \<Rightarrow> string \<Rightarrow> error + string" where
  "DecimalUtils_applyFee amount feePercentage =
     (case bigParse amount of
        Inl e \<Rightarrow> Inl e
      | Inr bigAmount \<Rightarrow>
         (case bigParse feePercentage of
            Inl e \<Rightarrow> Inl e
          | Inr fee \<Rightarrow>
             (case big_div fee \<lparr>coeff = 100, places = 0\<rparr> of
                Inl e \<Rightarrow> Inl e
              | Inr bigFee \<Rightarrow>
                  Inr (big_toFixed (big_times bigAmount (big_plus \<lparr>coeff = 1, places = 0\<rparr> bigFee))))))"

section \<open>Notions used to state the properties\<close>

text \<open>The language of a regular expression, with Kleene's star as an inductive set.\<close>

inductive_set star :: "string set \<Rightarrow> string set" for L :: "string set" where
  star_nil: "[] \<in> star L"
| star_app: "u \<in> L \<Longrightarrow> v \<in> star L \<Longrightarrow> u @ v \<in> star L"

fun lang :: "regex \<Rightarrow> string set" where
  "lang Never = {}"
| "lang Empty = {[]}"
| "lang (Lit c) = {[c]}"
| "lang DigitClass = {[c] | c. isDigit c}"
| "lang (Choice r s) = lang r \<union> lang s"
| "lang (Then r s) = {u @ v | u v. u \<in> lang r \<and> v \<in> lang s}"
| "lang (Many r) = star (lang r)"

text \<open>
  The strings described by the pattern of \<open>fromString\<close>, in words: an optional minus
  sign, any number of digits, an optional dot, and at least one digit.
\<close>

definition acceptedForm :: "string \<Rightarrow> bool" where
  "acceptedForm t =
     (\<exists>sign ds dot fs.
        t = sign @ ds @ dot @ fs \<and> (sign = [] \<or> sign = ''-'') \<and> list_all isDigit ds \<and>
        (dot = [] \<or> dot = ''.'') \<and> fs \<noteq> [] \<and> list_all isDigit fs)"

text \<open>
  Canonical form of a decimal string: an optional minus sign, a whole part without
  superfluous leading zeros, and either no fractional part (and then no dot) or a
  dot with fractional digits that do not end in a zero; zero carries no sign.
\<close>

definition canonicalForm :: "string \<Rightarrow> bool" where
  "canonicalForm s =
     (\<exists>sign w fs.
        s = sign @ w @ (if fs = [] then [] else ''.'' @ fs) \<and> (sign = [] \<or> sign = ''-'') \<and>
        w \<noteq> [] \<and> list_all isDigit w \<and> (w = ''0'' \<or> hd w \<noteq> CHR ''0'') \<and>
        list_all isDigit fs \<and> (fs = [] \<or> last fs \<noteq> CHR ''0'') \<and>
        (sign = [] \<or> w \<noteq> ''0'' \<or> fs \<noteq> []))"

text \<open>The number a \<open>Big\<close> stands for.\<close>

definition bigValue :: "Big \<Rightarrow> rat" where
  "bigValue x = of_int (coeff x) / 10 ^ places x"

text \<open>
  The number a decimal string stands for: an optional minus sign, digits, and
  optionally a dot followed by digits; the value is the integer formed by the
  digits without the dot, divided by ten to the number of fractional digits.
\<close>

definition denotes :: "string \<Rightarrow> rat \<Rightarrow> bool" where
  "denotes s q =
     (\<exists>sign w fs.
        s = sign @ w @ (if fs = [] then [] else ''.'' @ fs) \<and> (sign = [] \<or> sign = ''-'') \<and>
        w \<noteq> [] \<and> list_all isDigit w \<and> list_all isDigit fs \<and>
        q = (if sign = ''-'' then - 1 else 1) * of_int (digitsValue (w @ fs)) / 10 ^ length fs)"

text \<open>
  The decimal strings of the specified domain, with the number they stand for: as
  above, with at most 7 fractional digits.
\<close>

definition validDecimal :: "string \<Rightarrow> rat \<Rightarrow> bool" where
  "validDecimal s q =
     (\<exists>sign w fs.
        s = sign @ w @ (if fs = [] then [] else ''.'' @ fs) \<and> (sign = [] \<or> sign = ''-'') \<and>
        w \<noteq> [] \<and> list_all isDigit w \<and> list_all isDigit fs \<and> length fs \<le> 7 \<and>
        q = (if sign = ''-'' then - 1 else 1) * of_int (digitsValue (w @ fs)) / 10 ^ length fs)"

section \<open>The validation pattern and its language\<close>

lemma nullable_lang: "nullable r \<longleftrightarrow> [] \<in> lang r"
  by (induction r) (auto intro: star.star_nil)

lemma lang_ThenI: "u \<in> lang r \<Longrightarrow> v \<in> lang s \<Longrightarrow> u @ v \<in> lang (Then r s)"
  by auto

lemma star_cons_split:
  assumes "w \<in> star L" and "w = x # t"
  shows "\<exists>u v. x # u \<in> L \<and> v \<in> star L \<and> t = u @ v"
  using assms
proof (induction arbitrary: t rule: star.induct)
  case star_nil
  then show ?case by simp
next
  case (star_app u v)
  show ?case
  proof (cases u)
    case Nil
    with star_app show ?thesis by simp
  next
    case (Cons y us)
    with star_app.prems have "y = x" and "t = us @ v" by simp_all
    with Cons star_app.hyps show ?thesis by blast
  qed
qed

lemma derive_lang: "w \<in> lang (derive x r) \<longleftrightarrow> x # w \<in> lang r"
proof (induction r arbitrary: w)
  case (Then r s)
  show ?case
  proof
    assume "w \<in> lang (derive x (Then r s))"
    then consider (l) u v where "w = u @ v" "u \<in> lang (derive x r)" "v \<in> lang s"
      | (r) "nullable r" "w \<in> lang (derive x s)"
      by (auto split: if_splits)
    then show "x # w \<in> lang (Then r s)"
    proof cases
      case l
      then have "x # u \<in> lang r" using Then.IH(1) by simp
      with l have "(x # u) @ v \<in> lang (Then r s)" by (intro lang_ThenI)
      with l show ?thesis by simp
    next
      case r
      then have "[] \<in> lang r" "x # w \<in> lang s" using Then.IH(2) nullable_lang by simp_all
      then have "[] @ (x # w) \<in> lang (Then r s)" by (intro lang_ThenI)
      then show ?thesis by simp
    qed
  next
    assume "x # w \<in> lang (Then r s)"
    then obtain u v where uv: "x # w = u @ v" "u \<in> lang r" "v \<in> lang s" by auto
    show "w \<in> lang (derive x (Then r s))"
    proof (cases u)
      case Nil
      with uv have "nullable r" "w \<in> lang (derive x s)"
        using Then.IH(2) nullable_lang by simp_all
      then show ?thesis by simp
    next
      case (Cons y us)
      with uv have "us \<in> lang (derive x r)" "w = us @ v" using Then.IH(1) by simp_all
      with uv show ?thesis by auto
    qed
  qed
next
  case (Many r)
  show ?case
  proof
    assume "w \<in> lang (derive x (Many r))"
    then obtain u v where uv: "w = u @ v" "u \<in> lang (derive x r)" "v \<in> star (lang r)" by auto
    then have "x # u \<in> lang r" using Many.IH by simp
    with uv have "(x # u) @ v \<in> star (lang r)" by (intro star.star_app)
    with uv show "x # w \<in> lang (Many r)" by simp
  next
    assume "x # w \<in> lang (Many r)"
    then have "x # w \<in> star (lang r)" by simp
    from star_cons_split [OF this refl]
    obtain u v where "x # u \<in> lang r" "v \<in> star (lang r)" "w = u @ v" by blast
    then show "w \<in> lang (derive x (Many r))" using Many.IH by auto
  qed
qed auto

lemma matches_lang: "matches r s \<longleftrightarrow> s \<in> lang r"
  by (induction s arbitrary: r) (simp_all add: nullable_lang derive_lang)


lemma star_digits: "w \<in> star (lang DigitClass) \<longleftrightarrow> list_all isDigit w"
proof
  assume "w \<in> star (lang DigitClass)"
  then show "list_all isDigit w"
    by (induction rule: star.induct) auto
next
  assume "list_all isDigit w"
  then show "w \<in> star (lang DigitClass)"
  proof (induction w)
    case Nil
    show ?case by (rule star.star_nil)
  next
    case (Cons c cs)
    then have "[c] \<in> lang DigitClass" and "cs \<in> star (lang DigitClass)" by simp_all
    then have "[c] @ cs \<in> star (lang DigitClass)" by (rule star.star_app)
    then show ?case by simp
  qed
qed

lemma lang_Opt_Lit: "lang (Opt (Lit c)) = {[], [c]}"
  by (auto simp: Opt_def)

lemma lang_Several_Digit: "lang (Several DigitClass) = {fs. fs \<noteq> [] \<and> list_all isDigit fs}"
proof -
  have "lang (Several DigitClass) = {u @ v | u v. u \<in> lang DigitClass \<and> list_all isDigit v}"
    unfolding Several_def lang.simps(6) lang.simps(7) star_digits by (rule refl)
  also have "\<dots> = {fs. fs \<noteq> [] \<and> list_all isDigit fs}"
  proof (intro set_eqI iffI)
    fix fs assume "fs \<in> {fs. fs \<noteq> [] \<and> list_all isDigit fs}"
    then obtain c cs where "fs = [c] @ cs" "isDigit c" "list_all isDigit cs"
      by (cases fs) auto
    then show "fs \<in> {u @ v | u v. u \<in> lang DigitClass \<and> list_all isDigit v}"
      by (simp del: append.simps) blast
  qed auto
  finally show ?thesis .
qed

lemma lang_decimalPattern: "t \<in> lang decimalPattern \<longleftrightarrow> acceptedForm t"
proof -
  have "t \<in> lang decimalPattern \<longleftrightarrow>
        (\<exists>sign rest. t = sign @ rest \<and> sign \<in> lang (Opt (Lit (CHR ''-''))) \<and>
           (\<exists>ds rest2. rest = ds @ rest2 \<and> ds \<in> lang (Many DigitClass) \<and>
              (\<exists>dot fs. rest2 = dot @ fs \<and> dot \<in> lang (Opt (Lit (CHR ''.''))) \<and>
                 fs \<in> lang (Several DigitClass))))"
    unfolding decimalPattern_def lang.simps(6) by blast
  also have "\<dots> \<longleftrightarrow> acceptedForm t"
    unfolding lang_Opt_Lit lang_Several_Digit lang.simps(7) star_digits acceptedForm_def
    by (simp only: insert_iff empty_iff mem_Collect_eq) blast
  finally show ?thesis .
qed

text \<open>The result of \<open>fromString\<close> in terms of the accepted form.\<close>

lemma fromString_eq:
  "fromString s = (if acceptedForm (trim s) then Inr (trim s) else Inl (InvalidDecimalFormat s))"
  by (simp add: fromString_def matches_lang lang_decimalPattern)

section \<open>Exact arithmetic of the decimal type\<close>

lemma bigValue_times: "bigValue (big_times x y) = bigValue x * bigValue y"
  by (simp add: bigValue_def big_times_def power_add)

lemma bigValue_plus: "bigValue (big_plus x y) = bigValue x + bigValue y"
proof -
  define m where "m = max (places x) (places y)"
  have px: "(10::rat) ^ m = 10 ^ (m - places x) * 10 ^ places x"
    by (simp add: m_def flip: power_add)
  have py: "(10::rat) ^ m = 10 ^ (m - places y) * 10 ^ places y"
    by (simp add: m_def flip: power_add)
  have "bigValue (big_plus x y) =
        (of_int (coeff x) * 10 ^ (m - places x) + of_int (coeff y) * 10 ^ (m - places y)) / 10 ^ m"
    by (simp add: bigValue_def big_plus_def Let_def m_def)
  also have "\<dots> = of_int (coeff x) * 10 ^ (m - places x) / 10 ^ m
                  + of_int (coeff y) * 10 ^ (m - places y) / 10 ^ m"
    by (simp add: add_divide_distrib)
  also have "of_int (coeff x) * 10 ^ (m - places x) / (10::rat) ^ m = bigValue x"
    by (subst px) (simp add: bigValue_def)
  also have "of_int (coeff y) * 10 ^ (m - places y) / (10::rat) ^ m = bigValue y"
    by (subst py) (simp add: bigValue_def)
  finally show ?thesis .
qed

lemma big_div_hundred:
  assumes "places f + 2 \<le> Big_DP"
  shows "\<exists>q. big_div f \<lparr>coeff = 100, places = 0\<rparr> = Inr q \<and> bigValue q = bigValue f / 100"
proof -
  define m where "m = Big_DP - 2 - places f"
  define d :: int where "d = 100 * 10 ^ places f"
  define n :: int where "n = \<bar>coeff f\<bar> * 10 ^ Big_DP"
  have dp: "Big_DP = m + (2 + places f)" using assms by (simp add: m_def)
  have d_pos: "0 < d" by (simp add: d_def)
  have n_eq: "n = (\<bar>coeff f\<bar> * 10 ^ m) * d"
    by (simp add: n_def d_def dp power_add)
  have q_eq: "n div d = \<bar>coeff f\<bar> * 10 ^ m"
    using d_pos by (simp add: n_eq)
  have "n * 10 = (\<bar>coeff f\<bar> * 10 ^ m * 10) * d" by (simp add: n_eq)
  then have "n * 10 div d = \<bar>coeff f\<bar> * 10 ^ m * 10"
    using d_pos by simp
  then have digit: "(n * 10 div d) mod 10 = 0" by simp
  let ?q = "\<lparr>coeff = sgn (coeff f) * sgn 100 * (\<bar>coeff f\<bar> * 10 ^ m), places = Big_DP\<rparr>"
  have res: "big_div f \<lparr>coeff = 100, places = 0\<rparr> = Inr ?q"
    using digit q_eq by (simp add: big_div_def Let_def n_def d_def)
  have "sgn (coeff f) * sgn 100 * (\<bar>coeff f\<bar> * 10 ^ m) = coeff f * 10 ^ m"
    by (simp add: mult.assoc [symmetric] mult_sgn_abs)
  then have "bigValue ?q = of_int (coeff f * 10 ^ m) / 10 ^ Big_DP"
    by (simp only: bigValue_def Big.select_convs)
  also have "\<dots> = of_int (coeff f) * 10 ^ m / (10 ^ m * (100 * 10 ^ places f))"
    by (simp add: dp power_add)
  also have "\<dots> = bigValue f / 100"
    by (simp add: bigValue_def)
  finally show ?thesis using res by blast
qed

text \<open>
  The rounding of \<open>div\<close> on quotients that do not end: 20 decimal places, the last
  one rounded half up in magnitude.  A fee percentage of \<open>1e-18\<close> is still seen in
  the total, one of \<open>1e-19\<close> is not.
\<close>

lemma big_div_rounds:
  "big_div \<lparr>coeff = 2, places = 0\<rparr> \<lparr>coeff = 3, places = 0\<rparr>
     = Inr \<lparr>coeff = 66666666666666666667, places = 20\<rparr>"
  "big_div \<lparr>coeff = 1, places = 0\<rparr> \<lparr>coeff = 3, places = 0\<rparr>
     = Inr \<lparr>coeff = 33333333333333333333, places = 20\<rparr>"
  "big_div \<lparr>coeff = - 2, places = 0\<rparr> \<lparr>coeff = 3, places = 0\<rparr>
     = Inr \<lparr>coeff = - 66666666666666666667, places = 20\<rparr>"
  "big_div \<lparr>coeff = 1, places = 0\<rparr> \<lparr>coeff = 0, places = 0\<rparr> = Inl BigDivisionByZero"
  by code_simp+

lemma applyFee_precision_limit:
  "DecimalUtils_applyFee ''1'' ''1e-18'' = Inr ''1.00000000000000000001''"
  "DecimalUtils_applyFee ''1'' ''1e-19'' = Inr ''1''"
  "DecimalUtils_applyFee ''1'' ''0.0000000000000000001'' = Inr ''1''"
  by code_simp+

section \<open>Printing a decimal and reading it back\<close>

lemma of_char_digitChar: "0 \<le> d \<Longrightarrow> d < 10 \<Longrightarrow> (of_char (digitChar d) :: int) = 48 + d"
  by (simp add: digitChar_def take_bit_eq_mod)

lemma isDigit_digitChar: "0 \<le> d \<Longrightarrow> d < 10 \<Longrightarrow> isDigit (digitChar d)"
  by (simp add: isDigit_def of_char_digitChar)

lemma digitsValue_Nil: "digitsValue [] = 0"
  by (simp add: digitsValue_def)

lemma digitsValue_snoc: "digitsValue (xs @ [c]) = digitsValue xs * 10 + (of_char c - 48)"
  by (simp add: digitsValue_def)

lemma digitsValue_append:
  "digitsValue (xs @ ys) = digitsValue xs * 10 ^ length ys + digitsValue ys"
proof (induction ys rule: rev_induct)
  case Nil
  show ?case by (simp add: digitsValue_Nil)
next
  case (snoc y ys)
  have "digitsValue (xs @ ys @ [y]) = digitsValue ((xs @ ys) @ [y])" by simp
  also have "\<dots> = digitsValue (xs @ ys) * 10 + (of_char y - 48)"
    by (rule digitsValue_snoc)
  also have "\<dots> = digitsValue xs * 10 ^ length (ys @ [y]) + digitsValue (ys @ [y])"
    by (simp add: snoc.IH digitsValue_snoc algebra_simps)
  finally show ?case .
qed

lemma digitsValue_zeros: "digitsValue (replicate n (CHR ''0'')) = 0"
proof (induction n)
  case 0
  show ?case by (simp add: digitsValue_Nil)
next
  case (Suc n)
  have "replicate (Suc n) (CHR ''0'') = replicate n (CHR ''0'') @ [CHR ''0'']"
    by (simp add: replicate_append_same)
  then show ?case by (simp only: digitsValue_snoc Suc.IH) simp
qed

lemma decimalDigits_props:
  "0 \<le> n \<Longrightarrow> decimalDigits n \<noteq> [] \<and> list_all isDigit (decimalDigits n) \<and> digitsValue (decimalDigits n) = n"
proof (induction n rule: decimalDigits.induct)
  case (1 n)
  show ?case
  proof (cases "n < 10")
    case True
    with "1.prems" show ?thesis
      by (simp add: decimalDigits.simps [of n] isDigit_digitChar digitsValue_def of_char_digitChar)
  next
    case False
    then have "0 \<le> n div 10" by simp
    with "1.IH" False have ih: "list_all isDigit (decimalDigits (n div 10))"
      "digitsValue (decimalDigits (n div 10)) = n div 10" by simp_all
    have m: "0 \<le> n mod 10" "n mod 10 < 10" by simp_all
    have "digitsValue [digitChar (n mod 10)] = n mod 10"
      using m by (simp add: digitsValue_def of_char_digitChar)
    with ih m False show ?thesis
      by (simp add: decimalDigits.simps [of n] isDigit_digitChar digitsValue_append)
  qed
qed


lemma searchFrom_none: "\<forall>x\<in>set xs. \<not> p x \<Longrightarrow> searchFrom p xs i = - 1"
  by (induction xs arbitrary: i) simp_all

lemma searchFrom_found:
  "\<forall>x\<in>set xs. \<not> p x \<Longrightarrow> p y \<Longrightarrow> searchFrom p (xs @ y # ys) i = i + int (length xs)"
  by (induction xs arbitrary: i) simp_all

lemma removeFirst_found: "c \<notin> set xs \<Longrightarrow> removeFirst c (xs @ c # ys) = xs @ ys"
  by (induction xs) auto

lemma strip_decomp: "\<exists>j. xs = stripTrailingZeros xs @ replicate j (CHR ''0'')"
proof -
  let ?P = "\<lambda>c. c = CHR ''0''"
  have "takeWhile ?P (rev xs) = replicate (length (takeWhile ?P (rev xs))) (CHR ''0'')"
    by (rule replicate_length_same [symmetric]) (auto dest: set_takeWhileD)
  moreover have "xs = rev (dropWhile ?P (rev xs)) @ rev (takeWhile ?P (rev xs))"
    by (metis rev_append rev_rev_ident takeWhile_dropWhile_id)
  ultimately have "xs = stripTrailingZeros xs @ rev (replicate (length (takeWhile ?P (rev xs))) (CHR ''0''))"
    by (simp add: stripTrailingZeros_def)
  then show ?thesis by (metis rev_replicate)
qed

lemma strip_last: "stripTrailingZeros xs \<noteq> [] \<Longrightarrow> last (stripTrailingZeros xs) \<noteq> CHR ''0''"
  unfolding stripTrailingZeros_def
  by (metis (mono_tags, lifting) hd_dropWhile last_rev rev_is_Nil_conv)

lemma strip_digits: "list_all isDigit xs \<Longrightarrow> list_all isDigit (stripTrailingZeros xs)"
  unfolding stripTrailingZeros_def list_all_iff
  by (auto dest: set_dropWhileD)


lemma decimalDigits_zero: "decimalDigits 0 = ''0''"
  by code_simp

lemma decimalDigits_hd: "0 < n \<Longrightarrow> hd (decimalDigits n) \<noteq> CHR ''0''"
proof (induction n rule: decimalDigits.induct)
  case (1 n)
  show ?case
  proof (cases "n < 10")
    case True
    with "1.prems" have "(of_char (digitChar n) :: int) = 48 + n"
      by (simp add: of_char_digitChar)
    with "1.prems" have "digitChar n \<noteq> CHR ''0''" by auto
    with True show ?thesis by (simp add: decimalDigits.simps [of n])
  next
    case False
    then have pos: "0 < n div 10" by simp
    then have "decimalDigits (n div 10) \<noteq> []"
      using decimalDigits_props [of "n div 10"] by simp
    with "1.IH" False pos show ?thesis
      by (simp add: decimalDigits.simps [of n])
  qed
qed

lemma toFixed_shape:
  obtains w fs j where
    "big_toFixed z = (if coeff z < 0 then ''-'' else []) @ w @ (if fs = [] then [] else ''.'' @ fs)"
    and "w \<noteq> []" and "list_all isDigit w" and "w = ''0'' \<or> hd w \<noteq> CHR ''0''"
    and "list_all isDigit fs" and "fs = [] \<or> last fs \<noteq> CHR ''0''"
    and "digitsValue (w @ fs) * 10 ^ j = \<bar>coeff z\<bar>" and "length fs + j = places z"
proof -
  define a where "a = \<bar>coeff z\<bar>"
  define p where "p = places z"
  define ds where "ds = decimalDigits a"
  define k where "k = p + 1 - length ds"
  define padded where "padded = padStart ds (p + 1) (CHR ''0'')"
  define w where "w = take (length padded - p) padded"
  define fr where "fr = drop (length padded - p) padded"
  define fs where "fs = stripTrailingZeros fr"
  have a0: "0 \<le> a" by (simp add: a_def)
  from decimalDigits_props [OF a0]
  have ds: "ds \<noteq> []" "list_all isDigit ds" "digitsValue ds = a" by (simp_all add: ds_def)
  have padded: "padded = replicate k (CHR ''0'') @ ds"
    by (simp add: padded_def padStart_def k_def)
  have zero_digit: "isDigit (CHR ''0'')" by (simp add: isDigit_def)
  have pd: "list_all isDigit padded"
    using ds(2) zero_digit by (auto simp: padded list_all_iff)
  have pv: "digitsValue padded = a"
    by (simp add: padded digitsValue_append digitsValue_zeros ds(3))
  have pl: "p + 1 \<le> length padded" by (simp add: padded k_def)
  have split: "w @ fr = padded" by (simp add: w_def fr_def)
  have frl: "length fr = p" using pl by (simp add: fr_def)
  have wl: "w \<noteq> []" using pl by (auto simp: w_def)
  have wd: "list_all isDigit w" and frd: "list_all isDigit fr"
    using pd split by (metis list_all_append)+
  from strip_decomp [of fr] obtain j where j: "fr = fs @ replicate j (CHR ''0'')"
    by (auto simp: fs_def)
  have len: "length fs + j = places z" using frl j by (metis length_append length_replicate p_def)
  have "digitsValue (w @ fs) * 10 ^ j = digitsValue ((w @ fs) @ replicate j (CHR ''0''))"
    by (simp only: digitsValue_append [of "w @ fs"] digitsValue_zeros length_replicate add_0_right)
  also have "\<dots> = digitsValue padded" using split j by simp
  finally have val: "digitsValue (w @ fs) * 10 ^ j = \<bar>coeff z\<bar>" by (simp add: pv a_def)
  have lead: "w = ''0'' \<or> hd w \<noteq> CHR ''0''"
  proof (cases "k = 0")
    case True
    then have pe: "padded = ds" by (simp add: padded)
    show ?thesis
    proof (cases "a = 0")
      case True
      then have "ds = ''0''" by (simp add: ds_def decimalDigits_zero)
      with pe pl have "p = 0" by simp
      with pe \<open>ds = ''0''\<close> show ?thesis by (simp add: w_def)
    next
      case False
      with a0 have "hd ds \<noteq> CHR ''0''" by (simp add: ds_def decimalDigits_hd)
      moreover have "hd w = hd ds" using wl pe by (simp add: w_def)
      ultimately show ?thesis by simp
    qed
  next
    case False
    then have "length padded = p + 1" using ds(1) by (simp add: padded k_def)
    then have "w = take 1 padded" by (simp add: w_def)
    also have "\<dots> = ''0''" using False by (cases k) (simp_all add: padded)
    finally show ?thesis by simp
  qed
  have "big_toFixed z =
        (if coeff z < 0 then ''-'' else []) @ w @ (if fs = [] then [] else ''.'' @ fs)"
    by (simp add: big_toFixed_def Let_def a_def p_def ds_def padded_def w_def fr_def fs_def)
  moreover have "list_all isDigit fs" using frd by (simp add: fs_def strip_digits)
  moreover have "fs = [] \<or> last fs \<noteq> CHR ''0''" using strip_last [of fr] by (auto simp: fs_def)
  ultimately show ?thesis using that wl wd lead val len by blast
qed

lemma digitsValue_single_zero: "digitsValue ''0'' = 0"
  by (simp add: digitsValue_def)

lemma toFixed_canonicalForm: "canonicalForm (big_toFixed z)"
proof -
  obtain w fs j where shape:
    "big_toFixed z = (if coeff z < 0 then ''-'' else []) @ w @ (if fs = [] then [] else ''.'' @ fs)"
    "w \<noteq> []" "list_all isDigit w" "w = ''0'' \<or> hd w \<noteq> CHR ''0''"
    "list_all isDigit fs" "fs = [] \<or> last fs \<noteq> CHR ''0''"
    "digitsValue (w @ fs) * 10 ^ j = \<bar>coeff z\<bar>"
    by (rule toFixed_shape)
  have "coeff z < 0 \<Longrightarrow> w \<noteq> ''0'' \<or> fs \<noteq> []"
  proof (rule ccontr)
    assume "coeff z < 0" and "\<not> (w \<noteq> ''0'' \<or> fs \<noteq> [])"
    with shape(7) show False by (simp add: digitsValue_single_zero)
  qed
  with shape(1-6) show ?thesis
    unfolding canonicalForm_def
    by (intro exI [of _ "if coeff z < 0 then ''-'' else []"] exI [of _ w] exI [of _ fs]) simp
qed

lemma lang_Opt: "lang (Opt r) = insert [] (lang r)"
  by (auto simp: Opt_def)

lemma plain_numeral_matches:
  assumes "sign = [] \<or> sign = ''-''" and "w \<noteq> []" and "list_all isDigit w"
    and "list_all isDigit fs"
  shows "matches numericPattern (sign @ w @ (if fs = [] then [] else ''.'' @ fs))"
proof -
  let ?frac = "if fs = [] then [] else ''.'' @ fs"
  let ?fracRe = "Opt (Then (Lit (CHR ''.'')) (Many DigitClass))"
  let ?expRe = "Opt (Then (Choice (Lit (CHR ''e'')) (Lit (CHR ''E'')))
                    (Then (Opt (Choice (Lit (CHR ''+'')) (Lit (CHR ''-'')))) (Several DigitClass)))"
  let ?mantRe = "Choice (Then (Several DigitClass) ?fracRe) (Then (Lit (CHR ''.'')) (Several DigitClass))"
  have sign: "sign \<in> lang (Opt (Lit (CHR ''-'')))"
    using assms(1) by (auto simp: lang_Opt)
  have whole: "w \<in> lang (Several DigitClass)"
    using assms(2,3) by (simp add: lang_Several_Digit)
  have "fs \<in> lang (Many DigitClass)"
    using assms(4) by (simp only: lang.simps(7) star_digits)
  then have "''.'' @ fs \<in> lang (Then (Lit (CHR ''.'')) (Many DigitClass))"
    by (intro lang_ThenI) simp_all
  then have frac: "?frac \<in> lang ?fracRe"
    by (simp add: lang_Opt)
  have "w @ ?frac \<in> lang (Then (Several DigitClass) ?fracRe)"
    using whole frac by (rule lang_ThenI)
  then have mant: "w @ ?frac \<in> lang ?mantRe"
    by (simp only: lang.simps(5) Un_iff) blast
  have "[] \<in> lang ?expRe" by (simp add: lang_Opt)
  with mant have "(w @ ?frac) @ [] \<in> lang (Then ?mantRe ?expRe)"
    by (rule lang_ThenI)
  with sign have "sign @ (w @ ?frac) @ [] \<in> lang (Then (Opt (Lit (CHR ''-''))) (Then ?mantRe ?expRe))"
    by (rule lang_ThenI)
  then show ?thesis
    by (simp only: matches_lang numericPattern_def append_Nil2 append_assoc)
qed

lemma bigParse_plain:
  assumes "sign = [] \<or> sign = ''-''" and "w \<noteq> []" and "list_all isDigit w"
    and "list_all isDigit fs"
  shows "bigParse (sign @ w @ (if fs = [] then [] else ''.'' @ fs)) =
         Inr \<lparr>coeff = (if sign = ''-'' then - digitsValue (w @ fs) else digitsValue (w @ fs)),
              places = length fs\<rparr>"
proof -
  let ?isE = "\<lambda>c. c = CHR ''e'' \<or> c = CHR ''E''"
  let ?isDot = "\<lambda>x. x = CHR ''.''"
  obtain c cs where w: "w = c # cs" using assms(2) by (cases w) auto
  have "isDigit c" using assms(3) w by simp
  then have c: "c \<noteq> CHR ''-''" by (auto simp: isDigit_def)
  have nodot: "\<forall>x\<in>set w. \<not> ?isDot x" and noE: "\<forall>x\<in>set (w @ fs). \<not> ?isE x"
    and noEw: "\<forall>x\<in>set w. \<not> ?isE x"
    using assms(3,4) by (auto simp: list_all_iff isDigit_def)
  have dot_none: "searchFrom ?isDot w 0 = - 1"
    using nodot by (rule searchFrom_none)
  have dot_found: "searchFrom ?isDot (w @ CHR ''.'' # fs) 0 = int (length w)"
    using searchFrom_found [of w ?isDot "CHR ''.''" fs 0, OF nodot] by simp
  have rm: "removeFirst (CHR ''.'') (w @ CHR ''.'' # fs) = w @ fs"
    using nodot by (intro removeFirst_found) auto
  have e_none: "searchFrom ?isE (w @ fs) 0 = - 1" "searchFrom ?isE w 0 = - 1"
    by (rule searchFrom_none [OF noE], rule searchFrom_none [OF noEw])
  have tk: "hd w = c" "hd (w @ CHR ''.'' # fs) = c"
    by (simp_all add: w)
  have m: "matches numericPattern (sign @ w @ (if fs = [] then [] else ''.'' @ fs))"
    by (rule plain_numeral_matches [OF assms])
  consider (pos_int) "sign = []" "fs = []" | (pos_frac) "sign = []" "fs \<noteq> []"
    | (neg_int) "sign = ''-''" "fs = []" | (neg_frac) "sign = ''-''" "fs \<noteq> []"
    using assms(1) by blast
  then show ?thesis
  proof cases
    case pos_int
    with m have "matches numericPattern w" by simp
    then have "bigParse w = Inr \<lparr>coeff = digitsValue w, places = 0\<rparr>"
      using c by (simp add: bigParse_def Let_def indexOf_def dot_none e_none tk)
    with pos_int show ?thesis by simp
  next
    case pos_frac
    with m have "matches numericPattern (w @ CHR ''.'' # fs)" by simp
    then have "bigParse (w @ CHR ''.'' # fs) = Inr \<lparr>coeff = digitsValue (w @ fs), places = length fs\<rparr>"
      using c pos_frac(2)
      by (simp add: bigParse_def Let_def indexOf_def dot_found rm e_none tk)
    with pos_frac show ?thesis by simp
  next
    case neg_int
    with m have "matches numericPattern (CHR ''-'' # w)" by simp
    then have "bigParse (CHR ''-'' # w) = Inr \<lparr>coeff = - digitsValue w, places = 0\<rparr>"
      by (simp add: bigParse_def Let_def indexOf_def dot_none e_none)
    with neg_int show ?thesis by simp
  next
    case neg_frac
    with m have "matches numericPattern (CHR ''-'' # w @ CHR ''.'' # fs)" by simp
    then have "bigParse (CHR ''-'' # w @ CHR ''.'' # fs) =
               Inr \<lparr>coeff = - digitsValue (w @ fs), places = length fs\<rparr>"
      using neg_frac(2)
      by (simp add: bigParse_def Let_def indexOf_def dot_found rm e_none)
    with neg_frac show ?thesis by simp
  qed
qed


lemma validDecimal_bigParse:
  assumes "validDecimal s q"
  shows "\<exists>z. bigParse s = Inr z \<and> bigValue z = q \<and> places z \<le> 7"
proof -
  from assms obtain sign w fs where d:
    "s = sign @ w @ (if fs = [] then [] else ''.'' @ fs)" "sign = [] \<or> sign = ''-''"
    "w \<noteq> []" "list_all isDigit w" "list_all isDigit fs" "length fs \<le> 7"
    "q = (if sign = ''-'' then - 1 else 1) * of_int (digitsValue (w @ fs)) / 10 ^ length fs"
    unfolding validDecimal_def by blast
  let ?z = "\<lparr>coeff = (if sign = ''-'' then - digitsValue (w @ fs) else digitsValue (w @ fs)),
             places = length fs\<rparr>"
  have "bigParse s = Inr ?z"
    unfolding d(1) by (rule bigParse_plain [OF d(2,3,4,5)])
  moreover have "bigValue ?z = q" by (simp add: bigValue_def d(7))
  moreover have "places ?z \<le> 7" using d(6) by simp
  ultimately show ?thesis by blast
qed

lemma denotes_bigParse:
  assumes "denotes s q"
  shows "\<exists>z. bigParse s = Inr z \<and> bigValue z = q"
proof -
  from assms obtain sign w fs where d:
    "s = sign @ w @ (if fs = [] then [] else ''.'' @ fs)" "sign = [] \<or> sign = ''-''"
    "w \<noteq> []" "list_all isDigit w" "list_all isDigit fs"
    "q = (if sign = ''-'' then - 1 else 1) * of_int (digitsValue (w @ fs)) / 10 ^ length fs"
    unfolding denotes_def by blast
  let ?z = "\<lparr>coeff = (if sign = ''-'' then - digitsValue (w @ fs) else digitsValue (w @ fs)),
             places = length fs\<rparr>"
  have "bigParse s = Inr ?z"
    unfolding d(1) by (rule bigParse_plain [OF d(2,3,4,5)])
  moreover have "bigValue ?z = q" by (simp add: bigValue_def d(6))
  ultimately show ?thesis by blast
qed

lemma toFixed_denotes: "denotes (big_toFixed z) (bigValue z)"
proof -
  obtain w fs j where shape:
    "big_toFixed z = (if coeff z < 0 then ''-'' else []) @ w @ (if fs = [] then [] else ''.'' @ fs)"
    "w \<noteq> []" "list_all isDigit w" "list_all isDigit fs"
    "digitsValue (w @ fs) * 10 ^ j = \<bar>coeff z\<bar>" "length fs + j = places z"
    by (rule toFixed_shape)
  define v where "v = digitsValue (w @ fs)"
  define sign where "sign = (if coeff z < 0 then ''-'' else [])"
  have c: "coeff z = (if sign = ''-'' then - 1 else 1) * v * 10 ^ j"
    using shape(5) by (auto simp: sign_def v_def)
  have "bigValue z = of_int ((if sign = ''-'' then - 1 else 1) * v * 10 ^ j) / (10 ^ length fs * 10 ^ j)"
    by (simp only: bigValue_def c [symmetric] shape(6) [symmetric] power_add)
  also have "\<dots> = (if sign = ''-'' then - 1 else 1) * of_int v / 10 ^ length fs"
    by simp
  finally have q: "bigValue z = (if sign = ''-'' then - 1 else 1) * of_int (digitsValue (w @ fs)) / 10 ^ length fs"
    by (simp add: v_def)
  have "sign = [] \<or> sign = ''-''" by (simp add: sign_def)
  with shape(1-4) q show ?thesis
    unfolding denotes_def sign_def [symmetric]
    by (intro exI [of _ sign] exI [of _ w] exI [of _ fs]) (simp add: sign_def)
qed

section \<open>The expectations of the repository's tests\<close>

text \<open>
  The model returns what the test file of the scaled-integer helpers expects, with
  one exception: the test expects \<open>subtract('3.14', '10')\<close> to be \<open>-6.86\<close>, and the
  code prints \<open>-6.-86\<close> (see \<open>fromBigInt\<close> below).
\<close>

lemma tests_add:
  "add ''1.23'' ''4.56'' = Inr ''5.79''" "add ''10'' ''5'' = Inr ''15''"
  "add ''0.1'' ''0.2'' = Inr ''0.3''" "add ''1.2345'' ''6.789'' = Inr ''8.0235''"
  "add ''1'' ''0.999'' = Inr ''1.999''" "add ''0'' ''5'' = Inr ''5''"
  "add ''3.14'' ''0'' = Inr ''3.14''" "add ''1.1234567'' ''0.0000001'' = Inr ''1.1234568''"
  "add ''999999999999'' ''1'' = Inr ''1000000000000''"
  "add ''0.0000001'' ''0.0000001'' = Inr ''0.0000002''"
  "multiply ''100'' ''0.015'' = Inr ''1.5''" "add ''100'' ''1.5'' = Inr ''101.5''"
  by code_simp+

lemma tests_subtract:
  "subtract ''10.50'' ''3.25'' = Inr ''7.25''" "subtract ''100'' ''50'' = Inr ''50''"
  "subtract ''5'' ''10'' = Inr ''-5''" "subtract ''10'' ''0'' = Inr ''10''"
  by code_simp+

lemma tests_multiply:
  "multiply ''2.5'' ''4'' = Inr ''10''" "multiply ''1.5'' ''2'' = Inr ''3''"
  "multiply ''0.5'' ''0.5'' = Inr ''0.25''" "multiply ''1.1'' ''1.1'' = Inr ''1.21''"
  "multiply ''3.14'' ''2'' = Inr ''6.28''" "multiply ''10'' ''0'' = Inr ''0''"
  "multiply ''0'' ''5'' = Inr ''0''"
  by code_simp+

lemma tests_divide:
  "divide_dec ''10'' ''2'' = Inr ''5''" "divide_dec ''1'' ''4'' = Inr ''0.25''"
  "divide_dec ''10'' ''3'' = Inr ''3.3333333''" "divide_dec ''1'' ''3'' = Inr ''0.3333333''"
  "divide_dec ''10'' ''0'' = Inl DivisionByZero"
  by code_simp+

lemma tests_applyFee:
  "applyFee ''100'' ''1.5'' = Inr ''1.5''" "applyFee ''100'' ''10'' = Inr ''10''"
  "applyFee ''1000'' ''2.5'' = Inr ''25''" "applyFee ''1'' ''1'' = Inr ''0.01''"
  by code_simp+

lemma tests_fromString:
  "fromString ''123.456'' = Inr ''123.456''" "fromString ''100'' = Inr ''100''"
  "fromString ''0.001'' = Inr ''0.001''" "fromString ''  123.456  '' = Inr ''123.456''"
  "fromString ''not-a-number'' = Inl (InvalidDecimalFormat ''not-a-number'')"
  "fromString ''12.34.56'' = Inl (InvalidDecimalFormat ''12.34.56'')"
  by code_simp+

lemma tests_compare:
  "compare ''10'' ''10'' = Inr 0" "compare ''5.5'' ''5.50'' = Inr 0"
  "compare ''5'' ''10'' = Inr (- 1)" "compare ''1.1'' ''1.2'' = Inr (- 1)"
  "compare ''10'' ''5'' = Inr 1" "compare ''1.2'' ''1.1'' = Inr 1"
  by code_simp+

section \<open>The errors of the operations\<close>

text \<open>
  \<open>fromString\<close> only fails with the invalid-format error.  The arithmetic only fails
  with the syntax error of the conversion to a big integer or, for a division,
  with the division by zero.
\<close>

lemma BigInt_error: "BigInt x = Inl e \<Longrightarrow> e = SyntaxError x"
  by (auto simp: BigInt_def split: option.splits)

lemma toDecimalValue_error: "toDecimalValue s = Inl e \<Longrightarrow> \<exists>m. e = SyntaxError m"
  unfolding toDecimalValue_def Let_def
  by (auto split: sum.splits dest: BigInt_error)

lemma fromString_error: "fromString s = Inl e \<Longrightarrow> e = InvalidDecimalFormat s"
  by (auto simp: fromString_def Let_def split: if_splits)

lemma add_error: "add a b = Inl e \<Longrightarrow> \<exists>m. e = SyntaxError m"
  unfolding add_def Let_def
  by (auto split: sum.splits dest: toDecimalValue_error)

lemma subtract_error: "subtract a b = Inl e \<Longrightarrow> \<exists>m. e = SyntaxError m"
  unfolding subtract_def Let_def
  by (auto split: sum.splits dest: toDecimalValue_error)

lemma multiply_error: "multiply a b = Inl e \<Longrightarrow> \<exists>m. e = SyntaxError m"
  unfolding multiply_def Let_def
  by (auto split: sum.splits dest: toDecimalValue_error)

lemma compare_error: "compare a b = Inl e \<Longrightarrow> \<exists>m. e = SyntaxError m"
  unfolding compare_def Let_def
  by (auto split: sum.splits if_splits dest: toDecimalValue_error)

lemma divide_error: "divide_dec a b = Inl e \<Longrightarrow> e = DivisionByZero \<or> (\<exists>m. e = SyntaxError m)"
  unfolding divide_dec_def Let_def
  by (auto split: sum.splits if_splits dest: toDecimalValue_error)

lemma applyFee_error: "applyFee a b = Inl e \<Longrightarrow> e = DivisionByZero \<or> (\<exists>m. e = SyntaxError m)"
  unfolding applyFee_def
  by (auto split: sum.splits dest: multiply_error divide_error)

section \<open>Parsing into a scaled integer\<close>

text \<open>
  C1 (parse: scale capped at 7, digits beyond the 7th truncated, magnitude the digit
  string without its dot).  The scale is as stated, the magnitude is not: the digits
  are cut at \<open>str.length - dotIndex - 1 + scale\<close> characters, which counts the
  fractional digits twice and the integer part not at all.  Parsing \<open>12.5\<close> gives the
  magnitude 12 (not 125) with scale 1, and parsing \<open>0.123456789\<close> keeps all nine
  fractional digits, magnitude 123456789 (not 1234567), with scale 7.
\<close>

theorem toDecimalValue_cuts_wrong_digits:
  "toDecimalValue ''12.5'' = Inr \<lparr>val = 12, scale = 1\<rparr> \<and>
   toDecimalValue ''0.123456789'' = Inr \<lparr>val = 123456789, scale = 7\<rparr>"
  by code_simp

section \<open>Division and the fee amount\<close>

text \<open>
  C2 (divide: the exact quotient truncated at the target precision, the divisor's
  scale taken into account).  \<open>divide\<close> multiplies the dividend's magnitude by \<open>10^7\<close>
  and divides by the divisor's magnitude; neither scale enters.  Dividing \<open>1\<close> by
  \<open>0.5\<close> gives \<open>0.2\<close>, not \<open>2\<close>.  With two integers the quotient is right and
  truncated: \<open>10 / 3\<close> is \<open>3.3333333\<close>.
\<close>

theorem divide_ignores_scales:
  "divide_dec ''1'' ''0.5'' = Inr ''0.2'' \<and> divide_dec ''10'' ''3'' = Inr ''3.3333333''"
  by code_simp

text \<open>
  C7 (the fee amount is \<open>amount * feePercent / 100\<close>, truncated at 7 fractional
  digits).  \<open>applyFee\<close> divides the product by \<open>100\<close> with \<open>divide\<close>, which drops the
  scale of the product: for the amount \<open>0.5\<close> and the fee \<open>3\<close> the product is \<open>1.5\<close>
  and the result \<open>0.15\<close>, not \<open>0.015\<close>.  When the product is an integer the result is
  right: \<open>100\<close> at \<open>1.5\<close> percent is \<open>1.5\<close>.
\<close>

theorem applyFee_drops_scale:
  "applyFee ''0.5'' ''3'' = Inr ''0.15'' \<and> applyFee ''100'' ''1.5'' = Inr ''1.5''"
  by code_simp

text \<open>
  C9 (divide fails with a division by zero exactly when the divisor's magnitude is
  zero).  The check is made on the value \<open>toDecimalValue\<close> returns, before the
  division.  For the divisor \<open>00.1\<close>, whose digits form the magnitude 1, that value is
  0 (the digits are cut to \<open>00\<close>), and \<open>divide\<close> fails with a division by zero.
\<close>

theorem divide_by_nonzero_reports_zero:
  "toDecimalValue ''00.1'' = Inr \<lparr>val = 0, scale = 1\<rparr> \<and>
   divide_dec ''1'' ''00.1'' = Inl DivisionByZero"
  by code_simp

section \<open>Canonical formatting\<close>

text \<open>
  C4 (formatting a magnitude and a scale: no trailing zeros, the sign on the whole
  part only).  For a negative magnitude with a fractional part the remainder keeps
  the sign of the magnitude and is printed with it, while a whole part of zero loses
  it: the magnitude \<open>-5\<close> with scale 1 is printed as \<open>0.-5\<close>, not \<open>-0.5\<close>, and \<open>-686\<close>
  with scale 2 as \<open>-6.-86\<close>.  Both values arise in \<open>subtract\<close>, for \<open>0 - 0.5\<close> and for
  \<open>3.14 - 10\<close>.
\<close>

theorem fromBigInt_signs_the_fraction:
  "fromBigInt (- 5) 1 = ''0.-5'' \<and> fromBigInt (- 686) 2 = ''-6.-86'' \<and>
   subtract ''0'' ''0.5'' = Inr ''0.-5'' \<and> subtract ''3.14'' ''10'' = Inr ''-6.-86''"
  by code_simp

section \<open>Addition, subtraction and comparison\<close>

text \<open>
  C5 (subtracting \<open>b\<close> from the sum of \<open>a\<close> and \<open>b\<close> gives back the canonical form of
  \<open>a\<close>).  For \<open>a = 12.5\<close> and \<open>b = 0\<close> the sum is \<open>1.2\<close> and so is the difference.  For
  \<open>a = 0.5\<close> and \<open>b = -1\<close> the sum is printed as \<open>0.-5\<close>, which \<open>subtract\<close> cannot
  read: it fails with a syntax error.
\<close>

theorem add_then_subtract_differs:
  "add ''12.5'' ''0'' = Inr ''1.2'' \<and> subtract ''1.2'' ''0'' = Inr ''1.2'' \<and>
   add ''0.5'' ''-1'' = Inr ''0.-5'' \<and> subtract ''0.-5'' ''-1'' = Inl (SyntaxError ''0-5'')"
  by code_simp

text \<open>
  C6 (two strings that differ by trailing fractional zeros compare equal).
  \<open>12.5\<close> is read as 12 tenths and \<open>12.50\<close> as 1250 hundredths, so the first compares
  smaller; \<open>5.5\<close> and \<open>5.50\<close> compare equal.
\<close>

theorem compare_trailing_zero_unequal:
  "compare ''12.5'' ''12.50'' = Inr (- 1) \<and> compare ''5.5'' ''5.50'' = Inr 0"
  by code_simp

section \<open>Validation with \<open>fromString\<close>\<close>

text \<open>
  C3 (fromString fails exactly when the trimmed input is not: an optional minus
  sign, at least one digit, an optional dot followed by at least one digit).  The
  pattern of the code asks for no digit before the dot, so \<open>.5\<close> is accepted.
\<close>

theorem fromString_accepts_leading_dot: "fromString ''.5'' = Inr ''.5''"
  by code_simp

text \<open>
  C3, as the code has it: \<open>fromString\<close> fails, and then with the invalid-format error
  naming its argument, exactly when the trimmed input is not of the form: an
  optional minus sign, any number of digits (possibly none), an optional dot, at
  least one digit.  It fails on the empty string, \<open>abc\<close>, \<open>1.2.3\<close>, \<open>.\<close>, \<open>-\<close> and
  \<open>5.\<close>, and accepts \<open>-.5\<close>.
\<close>

theorem fromString_fails_iff:
  "(fromString s = Inl e \<longleftrightarrow> e = InvalidDecimalFormat s \<and> \<not> acceptedForm (trim s)) \<and>
   fromString [] = Inl (InvalidDecimalFormat []) \<and>
   fromString ''abc'' = Inl (InvalidDecimalFormat ''abc'') \<and>
   fromString ''1.2.3'' = Inl (InvalidDecimalFormat ''1.2.3'') \<and>
   fromString ''.'' = Inl (InvalidDecimalFormat ''.'') \<and>
   fromString ''-'' = Inl (InvalidDecimalFormat ''-'') \<and>
   fromString ''5.'' = Inl (InvalidDecimalFormat ''5.'') \<and>
   fromString ''-.5'' = Inr ''-.5''"
proof -
  have "fromString s = Inl e \<longleftrightarrow> e = InvalidDecimalFormat s \<and> \<not> acceptedForm (trim s)"
    by (auto simp: fromString_eq)
  moreover have "fromString [] = Inl (InvalidDecimalFormat [])" by code_simp
  moreover have "fromString ''abc'' = Inl (InvalidDecimalFormat ''abc'')" by code_simp
  moreover have "fromString ''1.2.3'' = Inl (InvalidDecimalFormat ''1.2.3'')" by code_simp
  moreover have "fromString ''.'' = Inl (InvalidDecimalFormat ''.'')" by code_simp
  moreover have "fromString ''-'' = Inl (InvalidDecimalFormat ''-'')" by code_simp
  moreover have "fromString ''5.'' = Inl (InvalidDecimalFormat ''5.'')" by code_simp
  moreover have "fromString ''-.5'' = Inr ''-.5''" by code_simp
  ultimately show ?thesis by blast
qed

theorem fromString_fails_iff_witness:
  "fromString ''12.34.56'' = Inl (InvalidDecimalFormat ''12.34.56'') \<and>
   \<not> acceptedForm (trim ''12.34.56'')"
proof -
  have failed: "fromString ''12.34.56'' = Inl (InvalidDecimalFormat ''12.34.56'')"
    by code_simp
  with fromString_fails_iff [of "''12.34.56''" "InvalidDecimalFormat ''12.34.56''"]
  show ?thesis by blast
qed

text \<open>
  C10 (on an input its pattern accepts, fromString returns the trimmed input
  itself, and the arithmetic does not go through it).  The result is the trimmed
  string whenever the pattern matches it, that is, whenever it has the accepted
  form; \<open>5.50\<close> and \<open>007\<close> come back unchanged.  None of \<open>add\<close>, \<open>subtract\<close>,
  \<open>multiply\<close>, \<open>divide\<close>, \<open>compare\<close> and \<open>applyFee\<close> ever fails with the error of
  \<open>fromString\<close>, and each of them computes with the operand \<open>5.\<close>, which \<open>fromString\<close>
  rejects, in either position.
\<close>

theorem fromString_returns_trimmed:
  "(matches decimalPattern (trim s) \<longrightarrow> fromString s = Inr (trim s)) \<and>
   (acceptedForm (trim s) \<longrightarrow> fromString s = Inr (trim s)) \<and>
   fromString ''5.50'' = Inr ''5.50'' \<and>
   fromString ''007'' = Inr ''007'' \<and>
   fromString ''5.'' = Inl (InvalidDecimalFormat ''5.'') \<and>
   add ''5.'' ''1'' = Inr ''1'' \<and>
   add a b \<noteq> Inl (InvalidDecimalFormat m) \<and>
   subtract a b \<noteq> Inl (InvalidDecimalFormat m) \<and>
   multiply a b \<noteq> Inl (InvalidDecimalFormat m) \<and>
   divide_dec a b \<noteq> Inl (InvalidDecimalFormat m) \<and>
   compare a b \<noteq> Inl (InvalidDecimalFormat m) \<and>
   applyFee a b \<noteq> Inl (InvalidDecimalFormat m) \<and>
   subtract ''5.'' ''1'' = Inr ''-1'' \<and>
   multiply ''5.'' ''1'' = Inr ''0'' \<and>
   divide_dec ''5.'' ''1'' = Inr ''0'' \<and>
   compare ''5.'' ''1'' = Inr (- 1) \<and>
   applyFee ''5.'' ''1'' = Inr ''0'' \<and>
   add ''1'' ''5.'' = Inr ''1'' \<and>
   subtract ''1'' ''5.'' = Inr ''1'' \<and>
   multiply ''1'' ''5.'' = Inr ''0'' \<and>
   divide_dec ''1'' ''5.'' = Inl DivisionByZero \<and>
   compare ''1'' ''5.'' = Inr 1 \<and>
   applyFee ''1'' ''5.'' = Inr ''0''"
proof -
  have byPattern: "matches decimalPattern (trim s) \<longrightarrow> fromString s = Inr (trim s)"
    by (simp add: fromString_def)
  have byForm: "acceptedForm (trim s) \<longrightarrow> fromString s = Inr (trim s)"
    by (simp add: fromString_eq)
  have accepted: "fromString ''5.50'' = Inr ''5.50''" "fromString ''007'' = Inr ''007''"
    by code_simp+
  have rejected: "fromString ''5.'' = Inl (InvalidDecimalFormat ''5.'')" by code_simp
  have errors: "add a b \<noteq> Inl (InvalidDecimalFormat m)"
    "subtract a b \<noteq> Inl (InvalidDecimalFormat m)"
    "multiply a b \<noteq> Inl (InvalidDecimalFormat m)"
    "divide_dec a b \<noteq> Inl (InvalidDecimalFormat m)"
    "compare a b \<noteq> Inl (InvalidDecimalFormat m)"
    "applyFee a b \<noteq> Inl (InvalidDecimalFormat m)"
    using add_error [of a b] subtract_error [of a b] multiply_error [of a b]
      divide_error [of a b] compare_error [of a b] applyFee_error [of a b]
    by auto
  have first: "add ''5.'' ''1'' = Inr ''1''" "subtract ''5.'' ''1'' = Inr ''-1''"
    "multiply ''5.'' ''1'' = Inr ''0''" "divide_dec ''5.'' ''1'' = Inr ''0''"
    "compare ''5.'' ''1'' = Inr (- 1)" "applyFee ''5.'' ''1'' = Inr ''0''"
    by code_simp+
  have second: "add ''1'' ''5.'' = Inr ''1''" "subtract ''1'' ''5.'' = Inr ''1''"
    "multiply ''1'' ''5.'' = Inr ''0''" "divide_dec ''1'' ''5.'' = Inl DivisionByZero"
    "compare ''1'' ''5.'' = Inr 1" "applyFee ''1'' ''5.'' = Inr ''0''"
    by code_simp+
  show ?thesis
    by (intro conjI byPattern byForm accepted rejected errors first second)
qed

theorem fromString_returns_trimmed_witness:
  "matches decimalPattern (trim ''  123.456  '') \<and>
   fromString ''  123.456  '' = Inr ''123.456''"
proof -
  have accepted: "matches decimalPattern (trim ''  123.456  '')" by code_simp
  have trimmed: "trim ''  123.456  '' = ''123.456''" by code_simp
  from fromString_returns_trimmed [of "''  123.456  ''"] accepted
  have "fromString ''  123.456  '' = Inr (trim ''  123.456  '')" by blast
  with accepted trimmed show ?thesis by simp
qed

section \<open>The fee-inclusive total\<close>

text \<open>
  C8 (the total is \<open>amount * (1 + feePercent / 100)\<close>, as a canonical decimal
  string).  For an amount and a fee percentage that are decimal strings of the
  specified domain (at most 7 fractional digits), standing for the numbers \<open>a\<close> and
  \<open>f\<close>, \<open>applyFee\<close> of the \<open>big.js\<close> variant returns a string in canonical form that
  stands for exactly \<open>a * (1 + f / 100)\<close>; the amount \<open>100\<close> at \<open>1.5\<close> percent gives
  \<open>101.5\<close>.
\<close>

theorem applyFee_total_in_domain:
  assumes "validDecimal amount a" and "validDecimal fee f"
  shows "(\<exists>s. DecimalUtils_applyFee amount fee = Inr s \<and> canonicalForm s \<and>
              denotes s (a * (1 + f / 100))) \<and>
         DecimalUtils_applyFee ''100'' ''1.5'' = Inr ''101.5''"
proof -
  from validDecimal_bigParse [OF assms(1)] obtain x
    where x: "bigParse amount = Inr x" "bigValue x = a" by blast
  from validDecimal_bigParse [OF assms(2)] obtain y
    where y: "bigParse fee = Inr y" "bigValue y = f" "places y \<le> 7" by blast
  have "places y + 2 \<le> Big_DP" using y(3) by (simp add: Big_DP_def)
  from big_div_hundred [OF this] obtain q
    where q: "big_div y \<lparr>coeff = 100, places = 0\<rparr> = Inr q" "bigValue q = bigValue y / 100"
    by blast
  define t where "t = big_times x (big_plus \<lparr>coeff = 1, places = 0\<rparr> q)"
  have result: "DecimalUtils_applyFee amount fee = Inr (big_toFixed t)"
    by (simp add: DecimalUtils_applyFee_def x(1) y(1) q(1) t_def)
  have total: "bigValue t = a * (1 + f / 100)"
    by (simp add: t_def bigValue_times bigValue_plus q(2) x(2) y(2)) (simp add: bigValue_def)
  have "denotes (big_toFixed t) (a * (1 + f / 100))"
    using toFixed_denotes [of t] by (simp only: total)
  moreover have "DecimalUtils_applyFee ''100'' ''1.5'' = Inr ''101.5''" by code_simp
  ultimately show ?thesis using result toFixed_canonicalForm [of t] by blast
qed

text \<open>An instance: 250 at 2.5 percent.\<close>

lemma validDecimal_250: "validDecimal ''250'' 250"
  unfolding validDecimal_def
  by (intro exI [of _ "[]"] exI [of _ "''250''"] exI [of _ "[]"]) (simp add: isDigit_def digitsValue_def)

lemma validDecimal_2_5: "validDecimal ''2.5'' (5 / 2)"
  unfolding validDecimal_def
  by (intro exI [of _ "[]"] exI [of _ "''2''"] exI [of _ "''5''"]) (simp add: isDigit_def digitsValue_def)

theorem applyFee_total_in_domain_witness:
  "validDecimal ''250'' 250 \<and> validDecimal ''2.5'' (5 / 2) \<and>
   DecimalUtils_applyFee ''250'' ''2.5'' = Inr ''256.25'' \<and> canonicalForm ''256.25'' \<and>
   denotes ''256.25'' (250 * (1 + (5 / 2) / 100))"
proof -
  have r: "DecimalUtils_applyFee ''250'' ''2.5'' = Inr ''256.25''" by code_simp
  from applyFee_total_in_domain [OF validDecimal_250 validDecimal_2_5] r
  have "canonicalForm ''256.25'' \<and> denotes ''256.25'' (250 * (1 + (5 / 2) / 100))"
    by auto
  with validDecimal_250 validDecimal_2_5 r show ?thesis by blast
qed

end
